theory Spec2Isabelle
  imports Complex_Main
begin

section \<open>Python values that reach the Filter transformer\<close>

text \<open>
  The source is \<^verbatim>\<open>sktime/transformations/series/filter.py\<close>: the class
  \<^verbatim>\<open>Filter\<close>, its constructor \<^verbatim>\<open>__init__\<close> and its method
  \<^verbatim>\<open>_transform\<close>.

  The constructor only inspects its arguments with \<^verbatim>\<open>isinstance\<close>,
  \<^verbatim>\<open>is not None\<close> and \<^verbatim>\<open>>\<close>. A Python float is either a finite
  dyadic rational, an infinity or a NaN; Python compares an int with a float by exact
  value, so a finite float is modelled by its value as a rational number (both signed zeros
  have the value 0) and the comparisons below are exact, not rounded.
\<close>

datatype pyfloat = Fin rat | PosInf | NegInf | NaN

datatype pyval =
    PyNone
  | PyBool bool
  | PyInt int
  | PyFloat pyfloat
  | PyStr string
  | PyDict "(pyval \<times> pyval) list"

datatype pytype = TNoneType | TBool | TInt | TFloat | TStr | TDict

datatype error = TypeError | ValueError string | OtherError string

fun type_of :: "pyval \<Rightarrow> pytype" where
  "type_of PyNone = TNoneType"
| "type_of (PyBool _) = TBool"
| "type_of (PyInt _) = TInt"
| "type_of (PyFloat _) = TFloat"
| "type_of (PyStr _) = TStr"
| "type_of (PyDict _) = TDict"

text \<open>Among the built-in types modelled here, the only proper subclass is \<^verbatim>\<open>bool\<close> of \<^verbatim>\<open>int\<close>.\<close>

fun issubclass :: "pytype \<Rightarrow> pytype \<Rightarrow> bool" where
  "issubclass TBool TInt = True"
| "issubclass a b = (a = b)"

definition isinstance :: "pyval \<Rightarrow> pytype list \<Rightarrow> bool" where
  "isinstance v ts = list_ex (issubclass (type_of v)) ts"

text \<open>The value of a number; \<^verbatim>\<open>True\<close> is 1 and \<^verbatim>\<open>False\<close> is 0.\<close>

fun num_of :: "pyval \<Rightarrow> pyfloat option" where
  "num_of (PyBool b) = Some (Fin (if b then 1 else 0))"
| "num_of (PyInt i) = Some (Fin (of_int i))"
| "num_of (PyFloat f) = Some f"
| "num_of _ = None"

text \<open>IEEE ordering: every comparison with a NaN is false.\<close>

fun float_gt :: "pyfloat \<Rightarrow> pyfloat \<Rightarrow> bool" where
  "float_gt NaN _ = False"
| "float_gt _ NaN = False"
| "float_gt (Fin a) (Fin b) = (b < a)"
| "float_gt PosInf PosInf = False"
| "float_gt PosInf _ = True"
| "float_gt _ PosInf = False"
| "float_gt NegInf _ = False"
| "float_gt _ NegInf = True"

text \<open>
  Python's \<^verbatim>\<open>a > b\<close> on numbers. Operands that are not numbers never reach the
  comparisons of the constructor, whose \<^verbatim>\<open>isinstance\<close> guard raises first; for them
  the model answers with the \<^verbatim>\<open>TypeError\<close> that Python raises for an unordered pair.
\<close>

definition py_gt :: "pyval \<Rightarrow> pyval \<Rightarrow> error + bool" where
  "py_gt a b =
     (case (num_of a, num_of b) of
        (Some x, Some y) \<Rightarrow> Inr (float_gt x y)
      | _ \<Rightarrow> Inl TypeError)"

section \<open>The constructor\<close>

record Filter =
  sfreq :: pyval
  l_freq :: pyval
  h_freq :: pyval
  filter_kwargs :: pyval

text \<open>
  Modelled from the spec: the initialiser of the base class \<^verbatim>\<open>BaseTransformer\<close>,
  called on the last line of \<^verbatim>\<open>Filter.__init__\<close>, is not part of the source file.
  The spec says of a construction that passes the checks that it "stores the four values
  unchanged; no other side effects", so the base initialiser returns the object as it is
  and raises nothing.
\<close>

definition BaseTransformer_init :: "Filter \<Rightarrow> error + Filter" where
  "BaseTransformer_init self = Inr self"

text \<open>
  \<^verbatim>\<open>
  def __init__(self, sfreq, l_freq, h_freq, filter_kwargs=None):
      self.sfreq = sfreq
      self.l_freq = l_freq
      self.h_freq = h_freq
      self.filter_kwargs = filter_kwargs
      if not (
          isinstance(sfreq, (int, float))
          & isinstance(l_freq, (int, float, type(None)))
          & isinstance(h_freq, (int, float, type(None)))
      ):
          raise TypeError
      elif (l_freq is not None) & (h_freq is not None):
          if not ((l_freq > 0) & (h_freq > 0)):
              raise ValueError("Negative values not supported")
          if l_freq > h_freq:
              raise ValueError("High frequency must be higher" " than low frequency")
      super(Filter, self).__init__()
  \<close>
  An exception leaves the caller without an object, so the result is either the error or
  the constructed object. \<^verbatim>\<open>&\<close> on two \<^verbatim>\<open>bool\<close>s is conjunction that evaluates
  both operands.
\<close>

definition Filter_init :: "pyval \<Rightarrow> pyval \<Rightarrow> pyval \<Rightarrow> pyval \<Rightarrow> error + Filter" where
  "Filter_init sfreq' l_freq' h_freq' filter_kwargs' =
     (let self = \<lparr>sfreq = sfreq', l_freq = l_freq', h_freq = h_freq',
                  filter_kwargs = filter_kwargs'\<rparr>
      in if \<not> (isinstance sfreq' [TInt, TFloat]
                \<and> isinstance l_freq' [TInt, TFloat, TNoneType]
                \<and> isinstance h_freq' [TInt, TFloat, TNoneType])
         then Inl TypeError
         else if l_freq' \<noteq> PyNone \<and> h_freq' \<noteq> PyNone then
           (case py_gt l_freq' (PyInt 0) of
              Inl e \<Rightarrow> Inl e
            | Inr l_pos \<Rightarrow>
                (case py_gt h_freq' (PyInt 0) of
                   Inl e \<Rightarrow> Inl e
                 | Inr h_pos \<Rightarrow>
                     if \<not> (l_pos \<and> h_pos)
                     then Inl (ValueError ''Negative values not supported'')
                     else (case py_gt l_freq' h_freq' of
                             Inl e \<Rightarrow> Inl e
                           | Inr l_above_h \<Rightarrow>
                               if l_above_h
                               then Inl (ValueError
                                      ''High frequency must be higher than low frequency'')
                               else BaseTransformer_init self)))
         else BaseTransformer_init self)"

section \<open>The vocabulary of the specification\<close>

text \<open>
  An int in Python's sense (a \<^verbatim>\<open>bool\<close> is an int), a float, an absent value, and
  the order on the values of numbers, written independently of the code above.
\<close>

fun is_int :: "pyval \<Rightarrow> bool" where
  "is_int (PyInt _) = True"
| "is_int (PyBool _) = True"
| "is_int _ = False"

fun is_float :: "pyval \<Rightarrow> bool" where
  "is_float (PyFloat _) = True"
| "is_float _ = False"

definition is_number :: "pyval \<Rightarrow> bool" where
  "is_number v = (is_int v \<or> is_float v)"

definition absent :: "pyval \<Rightarrow> bool" where
  "absent v = (v = PyNone)"

fun float_sign_pos :: "pyfloat \<Rightarrow> bool" where
  "float_sign_pos (Fin r) = (0 < r)"
| "float_sign_pos PosInf = True"
| "float_sign_pos NegInf = False"
| "float_sign_pos NaN = False"

fun float_sign_nonpos :: "pyfloat \<Rightarrow> bool" where
  "float_sign_nonpos (Fin r) = (r \<le> 0)"
| "float_sign_nonpos PosInf = False"
| "float_sign_nonpos NegInf = True"
| "float_sign_nonpos NaN = False"


definition positive :: "pyval \<Rightarrow> bool" where
  "positive v = (case num_of v of Some x \<Rightarrow> float_sign_pos x | None \<Rightarrow> False)"

definition non_positive :: "pyval \<Rightarrow> bool" where
  "non_positive v = (case num_of v of Some x \<Rightarrow> float_sign_nonpos x | None \<Rightarrow> False)"

definition exceeds :: "pyval \<Rightarrow> pyval \<Rightarrow> bool" where
  "exceeds a b =
     (case (num_of a, num_of b) of (Some x, Some y) \<Rightarrow> float_gt x y | _ \<Rightarrow> False)"


section \<open>The constructor as a state transformer\<close>

text \<open>
  The record above keeps the four attributes that \<^verbatim>\<open>_transform\<close> reads. To speak of
  everything a construction changes, the same constructor is written here on the program
  state: the attributes of \<^verbatim>\<open>self\<close>, a dictionary from names to values as Python
  keeps them, and all the state outside the object (other objects, globals, what has been
  written to files and streams). \<^verbatim>\<open>self.name = v\<close> is \<open>setattr\<close>.
\<close>

record 'g pystate =
  self_attrs :: "string \<rightharpoonup> pyval"
  outside :: 'g

definition setattr :: "string \<Rightarrow> pyval \<Rightarrow> 'g pystate \<Rightarrow> 'g pystate" where
  "setattr name v st = st\<lparr>self_attrs := (self_attrs st)(name \<mapsto> v)\<rparr>"

text \<open>
  Modelled from the spec: the initialiser of the base class \<^verbatim>\<open>BaseTransformer\<close> on the
  program state. It is not part of the source file; the spec says of a construction that
  passes the checks that it "stores the four values unchanged; no other side effects", so
  the base initialiser leaves the state as it is and raises nothing.
\<close>

definition BaseTransformer_init_state :: "'g pystate \<Rightarrow> error + 'g pystate" where
  "BaseTransformer_init_state st = Inr st"

text \<open>
  \<^verbatim>\<open>Filter.__init__\<close>, statement by statement: the four assignments of lines 57 to 60,
  the checks of lines 61 to 71, the call of the base initialiser of line 72. When the
  constructor raises, the caller gets no object, and the result is the error.
\<close>

definition Filter_init_state ::
  "pyval \<Rightarrow> pyval \<Rightarrow> pyval \<Rightarrow> pyval \<Rightarrow> 'g pystate \<Rightarrow> error + 'g pystate" where
  "Filter_init_state sfreq' l_freq' h_freq' filter_kwargs' st =
     (let st1 = setattr ''sfreq'' sfreq' st;
          st2 = setattr ''l_freq'' l_freq' st1;
          st3 = setattr ''h_freq'' h_freq' st2;
          st4 = setattr ''filter_kwargs'' filter_kwargs' st3
      in if \<not> (isinstance sfreq' [TInt, TFloat]
                \<and> isinstance l_freq' [TInt, TFloat, TNoneType]
                \<and> isinstance h_freq' [TInt, TFloat, TNoneType])
         then Inl TypeError
         else if l_freq' \<noteq> PyNone \<and> h_freq' \<noteq> PyNone then
           (case py_gt l_freq' (PyInt 0) of
              Inl e \<Rightarrow> Inl e
            | Inr l_pos \<Rightarrow>
                (case py_gt h_freq' (PyInt 0) of
                   Inl e \<Rightarrow> Inl e
                 | Inr h_pos \<Rightarrow>
                     if \<not> (l_pos \<and> h_pos)
                     then Inl (ValueError ''Negative values not supported'')
                     else (case py_gt l_freq' h_freq' of
                             Inl e \<Rightarrow> Inl e
                           | Inr l_above_h \<Rightarrow>
                               if l_above_h
                               then Inl (ValueError
                                      ''High frequency must be higher than low frequency'')
                               else BaseTransformer_init_state st4)))
         else BaseTransformer_init_state st4)"

text \<open>The state in which the four attributes of an object have been stored.\<close>

definition store_fields :: "Filter \<Rightarrow> 'g pystate \<Rightarrow> 'g pystate" where
  "store_fields obj st =
     setattr ''filter_kwargs'' (filter_kwargs obj)
       (setattr ''h_freq'' (h_freq obj)
          (setattr ''l_freq'' (l_freq obj)
             (setattr ''sfreq'' (sfreq obj) st)))"

section \<open>Arrays, the external routine and the transform\<close>

text \<open>
  A numpy array is modelled by its shape and by the element at each index, an index being
  one natural number per axis. \<^verbatim>\<open>X.ndim\<close> is the number of axes, and
  \<^verbatim>\<open>X.transpose()\<close>, called without arguments, reverses the order of the axes: the
  element of the result at an index is the element of \<^verbatim>\<open>X\<close> at the reversed index.
\<close>

record ndarray =
  shape :: "nat list"
  elems :: "nat list \<Rightarrow> pyfloat"

definition ndim :: "ndarray \<Rightarrow> nat" where
  "ndim a = length (shape a)"

definition transpose_nd :: "ndarray \<Rightarrow> ndarray" where
  "transpose_nd a = \<lparr>shape = rev (shape a), elems = (\<lambda>idx. elems a (rev idx))\<rparr>"

text \<open>
  One invocation of \<^verbatim>\<open>mne.filter.filter_data\<close>: the positional array and the named
  arguments \<^verbatim>\<open>sfreq\<close>, \<^verbatim>\<open>l_freq\<close>, \<^verbatim>\<open>h_freq\<close>, followed by the named arguments
  that \<^verbatim>\<open>**kwargs\<close> expands to.
\<close>

record call =
  arg_data :: ndarray
  arg_sfreq :: pyval
  arg_l_freq :: pyval
  arg_h_freq :: pyval
  arg_kwargs :: "(string \<times> pyval) list"

text \<open>
  The routine itself belongs to the external library and is a parameter of the model. It
  may raise, and it may read and change a state \<^typ>\<open>'w\<close> of its own that the
  transformer never sees. The environment of a run holds that state and the log of the
  invocations made so far; \<open>filter_data\<close> is one invocation: it appends the call to the
  log and runs the routine.
\<close>

type_synonym 'w routine = "call \<Rightarrow> 'w \<Rightarrow> (error + ndarray) \<times> 'w"

record 'w env =
  world :: 'w
  calls :: "call list"

definition filter_data :: "'w routine \<Rightarrow> call \<Rightarrow> 'w env \<Rightarrow> (error + ndarray) \<times> 'w env" where
  "filter_data ext c s =
     (case ext c (world s) of
        (r, w') \<Rightarrow> (r, \<lparr>world = w', calls = calls s @ [c]\<rparr>))"

text \<open>
  \<^verbatim>\<open>f(..., sfreq=..., l_freq=..., h_freq=..., **kwargs)\<close>: Python builds the named
  arguments before it enters \<^verbatim>\<open>f\<close>. It raises \<^verbatim>\<open>TypeError\<close> when \<^verbatim>\<open>kwargs\<close> is
  not a mapping (of the values modelled here only a \<^verbatim>\<open>dict\<close> is one), when a key is not
  a string, and when a key repeats a name that the call already gives explicitly.
\<close>

fun keyword_names :: "(pyval \<times> pyval) list \<Rightarrow> error + (string \<times> pyval) list" where
  "keyword_names [] = Inr []"
| "keyword_names ((PyStr name, v) # kvs) =
     (case keyword_names kvs of
        Inl e \<Rightarrow> Inl e
      | Inr kws \<Rightarrow> Inr ((name, v) # kws))"
| "keyword_names (_ # kvs) = Inl TypeError"

definition expand_kwargs :: "string list \<Rightarrow> pyval \<Rightarrow> error + (string \<times> pyval) list" where
  "expand_kwargs explicit kwargs =
     (case kwargs of
        PyDict kvs \<Rightarrow>
          (case keyword_names kvs of
             Inl e \<Rightarrow> Inl e
           | Inr kws \<Rightarrow>
               if list_ex (\<lambda>kw. fst kw \<in> set explicit) kws then Inl TypeError
               else Inr kws)
      | _ \<Rightarrow> Inl TypeError)"

text \<open>
  \<^verbatim>\<open>
  def _transform(self, X, y=None) -> np.ndarray:
      from mne import filter
      if X.ndim == 2:
          X = X.transpose()
      sfreq = self.sfreq
      l_freq = self.l_freq
      h_freq = self.h_freq
      kwargs = self.filter_kwargs
      Xt = filter.filter_data(X, sfreq=sfreq, l_freq=l_freq, h_freq=h_freq, **kwargs)
      if Xt.ndim == 2:
          Xt = Xt.transpose()
      return Xt
  \<close>
  The external library is taken to be installed, so the import succeeds. The result is
  the returned array or the exception, together with the environment after the run.
\<close>

definition transform ::
  "'w routine \<Rightarrow> Filter \<Rightarrow> ndarray \<Rightarrow> pyval \<Rightarrow> 'w env \<Rightarrow> (error + ndarray) \<times> 'w env" where
  "transform ext self X y s =
     (let X1 = (if ndim X = 2 then transpose_nd X else X);
          sfreq' = sfreq self;
          l_freq' = l_freq self;
          h_freq' = h_freq self;
          kwargs = filter_kwargs self
      in case expand_kwargs [''sfreq'', ''l_freq'', ''h_freq''] kwargs of
           Inl e \<Rightarrow> (Inl e, s)
         | Inr kws \<Rightarrow>
             (case filter_data ext
                     \<lparr>arg_data = X1, arg_sfreq = sfreq', arg_l_freq = l_freq',
                      arg_h_freq = h_freq', arg_kwargs = kws\<rparr> s of
                (Inl e, s') \<Rightarrow> (Inl e, s')
              | (Inr Xt, s') \<Rightarrow>
                  (Inr (if ndim Xt = 2 then transpose_nd Xt else Xt), s')))"

text \<open>
  The routine is a deterministic function of its arguments when what it returns or raises
  does not depend on its hidden state.
\<close>

definition deterministic :: "'w routine \<Rightarrow> bool" where
  "deterministic ext = (\<forall>c w w'. fst (ext c w) = fst (ext c w'))"

text \<open>
  The names that the call in \<^verbatim>\<open>_transform\<close> gives explicitly, and the call it makes
  on an array with the stored configuration and the expanded keyword arguments.
\<close>

abbreviation explicit_keywords :: "string list" where
  "explicit_keywords \<equiv> [''sfreq'', ''l_freq'', ''h_freq'']"

definition call_with :: "Filter \<Rightarrow> ndarray \<Rightarrow> (string \<times> pyval) list \<Rightarrow> call" where
  "call_with self A kws =
     \<lparr>arg_data = A, arg_sfreq = sfreq self, arg_l_freq = l_freq self,
      arg_h_freq = h_freq self, arg_kwargs = kws\<rparr>"

section \<open>Sample values\<close>

text \<open>
  A routine that returns its input array and counts its invocations in its own state, a
  series of 3 time steps and 2 channels, a panel of 2 instances, 3 channels and 4 time
  steps, a filter with keyword arguments and a filter with the default
  \<^verbatim>\<open>filter_kwargs=None\<close>.
\<close>

definition identity_routine :: "nat routine" where
  "identity_routine c w = (Inr (arg_data c), Suc w)"

definition sample_series :: ndarray where
  "sample_series = \<lparr>shape = [3, 2], elems = (\<lambda>idx. Fin (of_nat (hd idx)))\<rparr>"

definition sample_panel :: ndarray where
  "sample_panel = \<lparr>shape = [2, 3, 4], elems = (\<lambda>idx. Fin (of_nat (last idx)))\<rparr>"

definition sample_filter :: Filter where
  "sample_filter =
     \<lparr>sfreq = PyInt 100, l_freq = PyInt 1, h_freq = PyInt 40,
      filter_kwargs = PyDict [(PyStr ''method'', PyStr ''iir'')]\<rparr>"

definition default_filter :: Filter where
  "default_filter =
     \<lparr>sfreq = PyInt 100, l_freq = PyInt 1, h_freq = PyInt 40, filter_kwargs = PyNone\<rparr>"

text \<open>
  A program state before a construction: the object already has one attribute, and the
  state outside it is a number.
\<close>

definition sample_state :: "nat pystate" where
  "sample_state = \<lparr>self_attrs = [''_estimator_type'' \<mapsto> PyStr ''transformer''], outside = 5\<rparr>"

section \<open>Helper lemmas on the checks\<close>

lemma isinstance_number: "isinstance v [TInt, TFloat] = is_number v"
  by (cases v) (simp_all add: isinstance_def is_number_def)

lemma isinstance_number_or_none:
  "isinstance v [TInt, TFloat, TNoneType] = (is_number v \<or> absent v)"
  by (cases v) (simp_all add: isinstance_def is_number_def absent_def)

lemma is_number_num_of: "is_number v \<Longrightarrow> \<exists>x. num_of v = Some x"
  by (cases v) (simp_all add: is_number_def)

lemma is_number_not_none: "is_number v \<Longrightarrow> v \<noteq> PyNone"
  by (auto simp: is_number_def)

lemma float_gt_zero: "float_gt x (Fin 0) = float_sign_pos x"
  by (cases x) simp_all

lemma py_gt_zero: "is_number v \<Longrightarrow> py_gt v (PyInt 0) = Inr (positive v)"
  by (cases v) (simp_all add: is_number_def py_gt_def positive_def float_gt_zero)

lemma py_gt_numbers: "is_number a \<Longrightarrow> is_number b \<Longrightarrow> py_gt a b = Inr (exceeds a b)"
  by (cases a; cases b) (simp_all add: is_number_def py_gt_def exceeds_def)


lemma non_positive_not_positive: "non_positive v \<Longrightarrow> \<not> positive v"
proof -
  have "float_sign_nonpos x \<Longrightarrow> \<not> float_sign_pos x" for x
    by (cases x) simp_all
  then show "non_positive v \<Longrightarrow> \<not> positive v"
    by (auto simp: non_positive_def positive_def split: option.splits)
qed



text \<open>The constructor on arguments that pass the type check, with both cutoffs given.\<close>

lemma Filter_init_both:
  assumes "is_number s" "is_number l" "is_number h"
  shows "Filter_init s l h k =
           (if \<not> (positive l \<and> positive h)
            then Inl (ValueError ''Negative values not supported'')
            else if exceeds l h
            then Inl (ValueError ''High frequency must be higher than low frequency'')
            else Inr \<lparr>sfreq = s, l_freq = l, h_freq = h, filter_kwargs = k\<rparr>)"
  using assms
  by (simp add: Filter_init_def isinstance_number isinstance_number_or_none
        is_number_not_none py_gt_zero py_gt_numbers BaseTransformer_init_def)

lemma Filter_init_one_absent:
  assumes "is_number s" "is_number l \<or> absent l" "is_number h \<or> absent h"
    and "absent l \<or> absent h"
  shows "Filter_init s l h k = Inr \<lparr>sfreq = s, l_freq = l, h_freq = h, filter_kwargs = k\<rparr>"
  using assms
  by (auto simp: Filter_init_def isinstance_number isinstance_number_or_none
        absent_def BaseTransformer_init_def)

lemma Filter_init_ill_typed:
  assumes "\<not> (is_number s \<and> (is_number l \<or> absent l) \<and> (is_number h \<or> absent h))"
  shows "Filter_init s l h k = Inl TypeError"
  using assms
  by (auto simp: Filter_init_def isinstance_number isinstance_number_or_none)

section \<open>Helper lemmas on the transform\<close>

lemma Filter_init_Inr:
  "Filter_init s l h k = Inr obj \<Longrightarrow>
     obj = \<lparr>sfreq = s, l_freq = l, h_freq = h, filter_kwargs = k\<rparr>"
  by (auto simp: Filter_init_def Let_def BaseTransformer_init_def
           split: if_splits sum.splits)

lemma transform_kwargs_rejected:
  assumes "expand_kwargs explicit_keywords (filter_kwargs self) = Inl e"
  shows "transform ext self X y s = (Inl e, s)"
  using assms by (simp add: transform_def)

lemma transform_routine_returns:
  assumes "expand_kwargs explicit_keywords (filter_kwargs self) = Inr kws"
    and "ext (call_with self (if ndim X = 2 then transpose_nd X else X) kws) (world s)
           = (Inr Y, w')"
  shows "transform ext self X y s =
           (Inr (if ndim Y = 2 then transpose_nd Y else Y),
            \<lparr>world = w',
             calls = calls s @ [call_with self (if ndim X = 2 then transpose_nd X else X) kws]\<rparr>)"
  using assms by (simp add: transform_def filter_data_def call_with_def)

lemma transform_routine_raises:
  assumes "expand_kwargs explicit_keywords (filter_kwargs self) = Inr kws"
    and "ext (call_with self (if ndim X = 2 then transpose_nd X else X) kws) (world s)
           = (Inl e, w')"
  shows "transform ext self X y s =
           (Inl e,
            \<lparr>world = w',
             calls = calls s @ [call_with self (if ndim X = 2 then transpose_nd X else X) kws]\<rparr>)"
  using assms by (simp add: transform_def filter_data_def call_with_def)

lemma transform_invokes_once:
  assumes "expand_kwargs explicit_keywords (filter_kwargs self) = Inr kws"
  shows "calls (snd (transform ext self X y s)) =
           calls s @ [call_with self (if ndim X = 2 then transpose_nd X else X) kws]"
proof (cases "ext (call_with self (if ndim X = 2 then transpose_nd X else X) kws) (world s)")
  case (Pair r w')
  then show ?thesis
    using assms transform_routine_returns [of self kws ext X s _ w' y]
      transform_routine_raises [of self kws ext X s _ w' y]
    by (cases r) simp_all
qed

lemma transpose_nd_shape: "shape (transpose_nd a) = rev (shape a)"
  by (simp add: transpose_nd_def)

lemma transpose_nd_elems: "elems (transpose_nd a) idx = elems a (rev idx)"
  by (simp add: transpose_nd_def)

lemma transpose_nd_involution: "transpose_nd (transpose_nd a) = a"
  by (simp add: transpose_nd_def)

text \<open>
  The axis handling when the call is reached: a 2-axis input is handed over transposed and
  a 2-axis result is transposed back; a 3-axis input is handed over as it is and a 3-axis
  result is returned as it is.
\<close>

lemma transform_two_axes_reached:
  assumes "shape X = [T, C]"
    and "expand_kwargs explicit_keywords (filter_kwargs self) = Inr kws"
    and "ext (call_with self (transpose_nd X) kws) (world s) = (Inr Y, w')"
    and "shape Y = shape (transpose_nd X)"
  shows "shape (transpose_nd X) = [C, T]
       \<and> transform ext self X y s =
           (Inr (transpose_nd Y),
            \<lparr>world = w', calls = calls s @ [call_with self (transpose_nd X) kws]\<rparr>)
       \<and> shape (transpose_nd Y) = [T, C]"
proof -
  from assms(1) have two: "ndim X = 2" by (simp add: ndim_def)
  from assms(1,4) have "ndim Y = 2" by (simp add: ndim_def transpose_nd_shape)
  with two assms(2,3) have "transform ext self X y s =
      (Inr (transpose_nd Y),
       \<lparr>world = w', calls = calls s @ [call_with self (transpose_nd X) kws]\<rparr>)"
    using transform_routine_returns [of self kws ext X s Y w' y] by simp
  with assms(1,4) show ?thesis
    by (simp add: transpose_nd_shape)
qed

lemma transform_three_axes_reached:
  assumes "shape X = [P, C, T]"
    and "expand_kwargs explicit_keywords (filter_kwargs self) = Inr kws"
    and "ext (call_with self X kws) (world s) = (Inr Y, w')"
    and "shape Y = shape X"
  shows "transform ext self X y s =
           (Inr Y, \<lparr>world = w', calls = calls s @ [call_with self X kws]\<rparr>)
       \<and> shape Y = [P, C, T]"
proof -
  from assms(1) have three: "ndim X = 3" by (simp add: ndim_def)
  from assms(1,4) have "ndim Y = 3" by (simp add: ndim_def)
  with three assms(2,3) have "transform ext self X y s =
      (Inr Y, \<lparr>world = w', calls = calls s @ [call_with self X kws]\<rparr>)"
    using transform_routine_returns [of self kws ext X s Y w' y] by simp
  with assms(1,4) show ?thesis by simp
qed

text \<open>
  The constructor on the program state and the constructor on the record agree: the same
  arguments are rejected with the same error, and an accepted construction stores the
  fields of the record in the state.
\<close>

lemma Filter_init_state_record:
  "Filter_init_state s l h k st =
     (case Filter_init s l h k of
        Inl e \<Rightarrow> Inl e
      | Inr obj \<Rightarrow> Inr (store_fields obj st))"
  by (simp add: Filter_init_state_def Filter_init_def Let_def store_fields_def
        BaseTransformer_init_def BaseTransformer_init_state_def
      split: sum.splits)

lemma transform_result_world:
  assumes "deterministic ext"
  shows "fst (transform ext self X y s) = fst (transform ext self X y s')"
proof (cases "expand_kwargs explicit_keywords (filter_kwargs self)")
  case (Inl e)
  then show ?thesis by (simp add: transform_kwargs_rejected)
next
  case (Inr kws)
  let ?c = "call_with self (if ndim X = 2 then transpose_nd X else X) kws"
  from assms have same: "fst (ext ?c (world s)) = fst (ext ?c (world s'))"
    by (simp add: deterministic_def)
  obtain r w where a: "ext ?c (world s) = (r, w)" by (cases "ext ?c (world s)")
  obtain r' w' where b: "ext ?c (world s') = (r', w')" by (cases "ext ?c (world s')")
  from same a b have "r' = r" by simp
  with a b Inr show ?thesis
    using transform_routine_returns [of self kws ext X s _ w y]
      transform_routine_raises [of self kws ext X s _ w y]
      transform_routine_returns [of self kws ext X s' _ w' y]
      transform_routine_raises [of self kws ext X s' _ w' y]
    by (cases r) simp_all
qed

lemma sample_filter_kwargs:
  "expand_kwargs explicit_keywords (filter_kwargs sample_filter) = Inr [(''method'', PyStr ''iir'')]"
  by (simp add: sample_filter_def expand_kwargs_def)

lemma default_filter_constructed:
  "Filter_init (PyInt 100) (PyInt 1) (PyInt 40) PyNone = Inr default_filter"
proof -
  have n: "is_number (PyInt 100)" "is_number (PyInt 1)" "is_number (PyInt 40)"
    by (simp_all add: is_number_def)
  have "(\<not> (positive (PyInt 1) \<and> positive (PyInt 40))) = False"
    "exceeds (PyInt 1) (PyInt 40) = False"
    by (simp_all add: positive_def exceeds_def)
  then show ?thesis by (simp add: Filter_init_both [OF n] default_filter_def)
qed

section \<open>Claims about construction\<close>

text \<open>
  C4. Construction fails with a type error if and only if \<^verbatim>\<open>sfreq\<close> is not an int or
  float, or \<^verbatim>\<open>l_freq\<close> is not an int, float or absent, or \<^verbatim>\<open>h_freq\<close> is not an
  int, float or absent; in particular the string \<^verbatim>\<open>"100"\<close> as \<^verbatim>\<open>sfreq\<close> raises a
  type error whatever the other arguments are.
\<close>

theorem C4_type_error_iff:
  "(Filter_init s l h k = Inl TypeError) =
     (\<not> is_number s \<or> \<not> (is_number l \<or> absent l) \<or> \<not> (is_number h \<or> absent h))
   \<and> Filter_init (PyStr ''100'') l h k = Inl TypeError"
proof (intro conjI)
  show "Filter_init (PyStr ''100'') l h k = Inl TypeError"
    by (rule Filter_init_ill_typed) (simp add: is_number_def)
next
  let ?well = "is_number s \<and> (is_number l \<or> absent l) \<and> (is_number h \<or> absent h)"
  show "(Filter_init s l h k = Inl TypeError) =
     (\<not> is_number s \<or> \<not> (is_number l \<or> absent l) \<or> \<not> (is_number h \<or> absent h))"
  proof (cases ?well)
    case False
    then have "Filter_init s l h k = Inl TypeError"
      by (rule Filter_init_ill_typed)
    with False show ?thesis by blast
  next
    case True
    have "Filter_init s l h k \<noteq> Inl TypeError"
    proof (cases "absent l \<or> absent h")
      case True
      with \<open>?well\<close> show ?thesis by (simp add: Filter_init_one_absent)
    next
      case False
      with \<open>?well\<close> have "is_number s" "is_number l" "is_number h" by auto
      then show ?thesis by (simp add: Filter_init_both)
    qed
    with True show ?thesis by blast
  qed
qed

theorem C4_type_error_witness:
  "Filter_init (PyStr ''100'') (PyInt 1) (PyInt 40) PyNone = Inl TypeError
   \<and> Filter_init (PyInt 100) (PyStr ''1'') (PyInt 40) PyNone = Inl TypeError
   \<and> Filter_init (PyInt 100) (PyInt 1) (PyInt 40) PyNone \<noteq> Inl TypeError
   \<and> Filter_init (PyFloat (Fin (1 / 2))) PyNone (PyBool True) PyNone \<noteq> Inl TypeError"
  using C4_type_error_iff [of "PyStr ''100''" "PyInt 1" "PyInt 40" PyNone]
    C4_type_error_iff [of "PyInt 100" "PyStr ''1''" "PyInt 40" PyNone]
    C4_type_error_iff [of "PyInt 100" "PyInt 1" "PyInt 40" PyNone]
    C4_type_error_iff [of "PyFloat (Fin (1 / 2))" PyNone "PyBool True" PyNone]
  by (simp add: is_number_def absent_def)

text \<open>
  C5. When the arguments pass the type check and both cutoffs are provided, construction
  fails with a value error whenever either cutoff is non-positive (zero or negative); in
  particular \<^verbatim>\<open>l_freq=-5, h_freq=10\<close> raises a value error.
\<close>

theorem C5_non_positive_cutoff:
  assumes "is_number s" "is_number l \<or> absent l" "is_number h \<or> absent h"
    and "\<not> absent l" "\<not> absent h"
    and "non_positive l \<or> non_positive h"
  shows "Filter_init s l h k = Inl (ValueError ''Negative values not supported'')"
proof -
  from assms have "is_number l" "is_number h" by auto
  moreover from assms(6) have "\<not> (positive l \<and> positive h)"
    by (auto dest: non_positive_not_positive)
  ultimately show ?thesis using assms(1) by (simp add: Filter_init_both)
qed

theorem C5_non_positive_cutoff_witness:
  "non_positive (PyInt (- 5))
   \<and> Filter_init (PyInt 100) (PyInt (- 5)) (PyInt 10) PyNone =
       Inl (ValueError ''Negative values not supported'')
   \<and> non_positive (PyFloat (Fin 0))
   \<and> Filter_init (PyInt 100) (PyInt 10) (PyFloat (Fin 0)) PyNone =
       Inl (ValueError ''Negative values not supported'')"
proof -
  have n1: "non_positive (PyInt (- 5))" and n2: "non_positive (PyFloat (Fin 0))"
    by (simp_all add: non_positive_def)
  have s: "is_number (PyInt 100)" and a: "is_number (PyInt (- 5)) \<or> absent (PyInt (- 5))"
    and b: "is_number (PyInt 10) \<or> absent (PyInt 10)"
    and c: "is_number (PyFloat (Fin 0)) \<or> absent (PyFloat (Fin 0))"
    and pa: "\<not> absent (PyInt (- 5))" and pb: "\<not> absent (PyInt 10)"
    and pc: "\<not> absent (PyFloat (Fin 0))"
    by (simp_all add: is_number_def absent_def)
  from n1 have d1: "non_positive (PyInt (- 5)) \<or> non_positive (PyInt 10)" ..
  from n2 have d2: "non_positive (PyInt 10) \<or> non_positive (PyFloat (Fin 0))" ..
  show ?thesis
    using n1 n2 C5_non_positive_cutoff [OF s a b pa pb d1, of PyNone]
      C5_non_positive_cutoff [OF s b c pb pc d2, of PyNone]
    by simp
qed




text \<open>
  C7. For every construction that succeeds, the attributes \<^verbatim>\<open>sfreq\<close>,
  \<^verbatim>\<open>l_freq\<close>, \<^verbatim>\<open>h_freq\<close> and \<^verbatim>\<open>filter_kwargs\<close> of the object are the
  constructor's arguments, unmodified, and construction has no other effect: every other
  attribute of the object is what it was before, and so is the state outside the object.
\<close>

theorem C7_fields_are_arguments:
  assumes "Filter_init_state s l h k st = Inr st'"
  shows "self_attrs st' ''sfreq'' = Some s
       \<and> self_attrs st' ''l_freq'' = Some l
       \<and> self_attrs st' ''h_freq'' = Some h
       \<and> self_attrs st' ''filter_kwargs'' = Some k
       \<and> (\<forall>name. name \<notin> set [''sfreq'', ''l_freq'', ''h_freq'', ''filter_kwargs'']
             \<longrightarrow> self_attrs st' name = self_attrs st name)
       \<and> outside st' = outside st"
proof -
  from assms have "st' =
      setattr ''filter_kwargs'' k (setattr ''h_freq'' h (setattr ''l_freq'' l
        (setattr ''sfreq'' s st)))"
    by (auto simp: Filter_init_state_def Let_def BaseTransformer_init_state_def
             split: if_splits sum.splits)
  then show ?thesis by (simp add: setattr_def)
qed

theorem C7_fields_are_arguments_witness:
  "\<exists>st'. Filter_init_state (PyInt 100) (PyInt 1) (PyInt 40)
            (PyDict [(PyStr ''method'', PyStr ''iir'')]) sample_state = Inr st'
     \<and> self_attrs st' ''sfreq'' = Some (PyInt 100)
     \<and> self_attrs st' ''l_freq'' = Some (PyInt 1)
     \<and> self_attrs st' ''h_freq'' = Some (PyInt 40)
     \<and> self_attrs st' ''filter_kwargs'' = Some (PyDict [(PyStr ''method'', PyStr ''iir'')])
     \<and> self_attrs st' ''_estimator_type'' = Some (PyStr ''transformer'')
     \<and> outside st' = 5"
proof -
  have n: "is_number (PyInt 100)" "is_number (PyInt 1)" "is_number (PyInt 40)"
    by (simp_all add: is_number_def)
  have "(\<not> (positive (PyInt 1) \<and> positive (PyInt 40))) = False"
    "exceeds (PyInt 1) (PyInt 40) = False"
    by (simp_all add: positive_def exceeds_def)
  then obtain st' where init: "Filter_init_state (PyInt 100) (PyInt 1) (PyInt 40)
        (PyDict [(PyStr ''method'', PyStr ''iir'')]) sample_state = Inr st'"
    by (simp add: Filter_init_state_record Filter_init_both [OF n])
  have old: "self_attrs sample_state ''_estimator_type'' = Some (PyStr ''transformer'')"
    "outside sample_state = 5"
    by (simp_all add: sample_state_def)
  from C7_fields_are_arguments [OF init] init old show ?thesis by auto
qed

text \<open>
  C10. When exactly one cutoff is provided and the other is absent, construction makes no
  positivity check on the provided cutoff: with a numeric \<^verbatim>\<open>sfreq\<close> and any numeric
  cutoff \<^verbatim>\<open>c\<close>, negative ones included, construction succeeds both with \<^verbatim>\<open>c\<close> as the
  low cutoff and with \<^verbatim>\<open>c\<close> as the high cutoff; for example \<^verbatim>\<open>l_freq=-5\<close> with
  \<^verbatim>\<open>h_freq\<close> absent.
\<close>

theorem C10_single_cutoff_unchecked:
  assumes "is_number s" "is_number c"
  shows "Filter_init s c PyNone k =
           Inr \<lparr>sfreq = s, l_freq = c, h_freq = PyNone, filter_kwargs = k\<rparr>
       \<and> Filter_init s PyNone c k =
           Inr \<lparr>sfreq = s, l_freq = PyNone, h_freq = c, filter_kwargs = k\<rparr>"
  using assms by (simp add: Filter_init_one_absent absent_def)

theorem C10_single_cutoff_unchecked_witness:
  "non_positive (PyInt (- 5))
   \<and> Filter_init (PyInt 100) (PyInt (- 5)) PyNone PyNone =
       Inr \<lparr>sfreq = PyInt 100, l_freq = PyInt (- 5), h_freq = PyNone,
            filter_kwargs = PyNone\<rparr>
   \<and> Filter_init (PyInt 100) PyNone (PyInt (- 5)) PyNone =
       Inr \<lparr>sfreq = PyInt 100, l_freq = PyNone, h_freq = PyInt (- 5),
            filter_kwargs = PyNone\<rparr>"
proof -
  have s: "is_number (PyInt 100)" and c: "is_number (PyInt (- 5))"
    by (simp_all add: is_number_def)
  have "non_positive (PyInt (- 5))" by (simp add: non_positive_def)
  with C10_single_cutoff_unchecked [OF s c, of PyNone] show ?thesis by simp
qed

section \<open>Claims about the transform\<close>

text \<open>
  C1. The claim: for every successfully constructed Filter, the one constructed with
  \<^verbatim>\<open>filter_kwargs\<close> absent (\<^verbatim>\<open>None\<close>, the default) included, transform invokes the
  external routine exactly once and does not fail before reaching it. What the code does
  with the default: every Filter that was constructed with \<^verbatim>\<open>filter_kwargs=None\<close>
  raises \<^verbatim>\<open>TypeError\<close> at \<^verbatim>\<open>**kwargs\<close>, on every input, and leaves the environment as
  it was: the log of invocations gains no entry, so the routine is never reached.
\<close>

theorem C1_default_kwargs_fail_before_routine:
  assumes "Filter_init s l h PyNone = Inr obj"
  shows "transform ext obj X y env = (Inl TypeError, env)"
proof -
  from assms have "filter_kwargs obj = PyNone"
    by (auto dest: Filter_init_Inr)
  then have "expand_kwargs explicit_keywords (filter_kwargs obj) = Inl TypeError"
    by (simp add: expand_kwargs_def)
  then show ?thesis by (rule transform_kwargs_rejected)
qed

theorem C1_default_kwargs_fail_before_routine_witness:
  "Filter_init (PyInt 100) (PyInt 1) (PyInt 40) PyNone = Inr default_filter
   \<and> transform identity_routine default_filter sample_series PyNone \<lparr>world = 0, calls = []\<rparr>
       = (Inl TypeError, \<lparr>world = 0, calls = []\<rparr>)"
  using default_filter_constructed
    C1_default_kwargs_fail_before_routine [OF default_filter_constructed,
      of identity_routine sample_series PyNone "\<lparr>world = 0, calls = []\<rparr>"]
  by simp

text \<open>
  C2. The claim: for every 2-dimensional input \<^verbatim>\<open>X\<close> of shape \<open>(T, C)\<close>, transform
  hands the external routine the transposed array of shape \<open>(C, T)\<close> and, when the
  routine returns an array of the same shape as its input, returns an output of shape
  \<open>(T, C)\<close>. What the code does with a Filter that was constructed with the default
  \<^verbatim>\<open>filter_kwargs=None\<close>: on every input of shape \<open>(T, C)\<close>, with every routine, the
  log of invocations stays as it was, so the routine is handed no array, and the run ends
  in \<^verbatim>\<open>TypeError\<close>, so there is no output.
\<close>

theorem C2_default_filter_two_axes:
  assumes "Filter_init s l h PyNone = Inr obj"
    and "shape X = [T, C]"
  shows "calls (snd (transform ext obj X y env)) = calls env
       \<and> fst (transform ext obj X y env) = Inl TypeError"
proof -
  from assms(1) have "filter_kwargs obj = PyNone"
    by (auto dest: Filter_init_Inr)
  then have "expand_kwargs explicit_keywords (filter_kwargs obj) = Inl TypeError"
    by (simp add: expand_kwargs_def)
  then have "transform ext obj X y env = (Inl TypeError, env)"
    by (rule transform_kwargs_rejected)
  then show ?thesis by simp
qed

theorem C2_default_filter_two_axes_witness:
  "shape sample_series = [3, 2]
   \<and> calls (snd (transform identity_routine default_filter sample_series PyNone
                   \<lparr>world = 0, calls = []\<rparr>)) = []
   \<and> fst (transform identity_routine default_filter sample_series PyNone
            \<lparr>world = 0, calls = []\<rparr>) = Inl TypeError"
proof -
  have h: "shape sample_series = [3, 2]" by (simp add: sample_series_def)
  from C2_default_filter_two_axes [where ext = identity_routine and y = PyNone
      and env = "\<lparr>world = 0, calls = []\<rparr>", OF default_filter_constructed h] h
  show ?thesis by simp
qed

text \<open>
  C3. The claim: for every 3-dimensional input \<^verbatim>\<open>X\<close> of shape \<open>(P, C, T)\<close>,
  transform passes \<^verbatim>\<open>X\<close> to the external routine with its axes as they are and, when
  the routine returns an array of the same shape as its input, returns an output of shape
  \<open>(P, C, T)\<close>. What the code does with a Filter that was constructed with the default
  \<^verbatim>\<open>filter_kwargs=None\<close>: on every input of shape \<open>(P, C, T)\<close>, with every routine,
  the log of invocations stays as it was, so \<^verbatim>\<open>X\<close> is passed to no routine, and the
  run ends in \<^verbatim>\<open>TypeError\<close>, so there is no output.
\<close>

theorem C3_default_filter_three_axes:
  assumes "Filter_init s l h PyNone = Inr obj"
    and "shape X = [P, C, T]"
  shows "calls (snd (transform ext obj X y env)) = calls env
       \<and> fst (transform ext obj X y env) = Inl TypeError"
proof -
  from assms(1) have "filter_kwargs obj = PyNone"
    by (auto dest: Filter_init_Inr)
  then have "expand_kwargs explicit_keywords (filter_kwargs obj) = Inl TypeError"
    by (simp add: expand_kwargs_def)
  then have "transform ext obj X y env = (Inl TypeError, env)"
    by (rule transform_kwargs_rejected)
  then show ?thesis by simp
qed

theorem C3_default_filter_three_axes_witness:
  "shape sample_panel = [2, 3, 4]
   \<and> calls (snd (transform identity_routine default_filter sample_panel PyNone
                   \<lparr>world = 0, calls = []\<rparr>)) = []
   \<and> fst (transform identity_routine default_filter sample_panel PyNone
            \<lparr>world = 0, calls = []\<rparr>) = Inl TypeError"
proof -
  have h: "shape sample_panel = [2, 3, 4]" by (simp add: sample_panel_def)
  from C3_default_filter_three_axes [where ext = identity_routine and y = PyNone
      and env = "\<lparr>world = 0, calls = []\<rparr>", OF default_filter_constructed h] h
  show ?thesis by simp
qed

text \<open>
  C8. When the external routine is a deterministic function of its arguments, the output
  of transform (the returned array or the exception) is the same for the same
  configuration and the same input, whatever the environment it runs in; in particular a
  second invocation, run in the environment that the first one left, yields the output of
  the first.
\<close>

theorem C8_same_input_same_output:
  assumes "deterministic ext"
  shows "fst (transform ext self X y s) = fst (transform ext self X y s')
       \<and> fst (transform ext self X y (snd (transform ext self X y s)))
           = fst (transform ext self X y s)"
  using assms transform_result_world [of ext self X y] by metis

theorem C8_same_input_same_output_witness:
  "deterministic identity_routine
   \<and> fst (transform identity_routine sample_filter sample_series PyNone
            \<lparr>world = 0, calls = []\<rparr>)
     = fst (transform identity_routine sample_filter sample_series PyNone
              (snd (transform identity_routine sample_filter sample_series PyNone
                      \<lparr>world = 0, calls = []\<rparr>)))"
proof -
  have d: "deterministic identity_routine"
    by (simp add: deterministic_def identity_routine_def)
  from C8_same_input_same_output [OF d, of sample_filter sample_series PyNone
      "\<lparr>world = 0, calls = []\<rparr>"] d
  show ?thesis by simp
qed

text \<open>
  C9. The output of transform does not depend on the label argument \<^verbatim>\<open>y\<close>: for every
  input and every two values of \<^verbatim>\<open>y\<close>, absent included, the two runs give the same
  output and leave the same environment, since \<^verbatim>\<open>y\<close> is never read.
\<close>

theorem C9_label_ignored:
  "transform ext self X y1 s = transform ext self X y2 s"
  by (simp add: transform_def)

theorem C9_label_ignored_witness:
  "transform identity_routine sample_filter sample_series PyNone \<lparr>world = 0, calls = []\<rparr>
     = transform identity_routine sample_filter sample_series (PyInt 1) \<lparr>world = 0, calls = []\<rparr>"
  using C9_label_ignored [of identity_routine sample_filter sample_series PyNone
      "\<lparr>world = 0, calls = []\<rparr>" "PyInt 1"]
  by simp

end
